theory Spec2Isabelle
  imports Main
begin

section \<open>Python values, exceptions and the world the code runs in\<close>

text \<open>
  The repository is a Python package \<^verbatim>\<open>mlProject\<close> with two modules that hold logic:
  \<^verbatim>\<open>utils/common.py\<close> (file helpers) and \<^verbatim>\<open>components/data_validation.py\<close> (the schema
  check). Both act on the file system and on the package logger, so every function below takes
  the world and returns the world it leaves behind. A Python exception is a value: a function
  that can raise returns \<open>py_exception + 'a\<close>, with \<open>Inl\<close> for the raised exception.
\<close>

type_synonym path = string

text \<open>An exception object: the name of its class and the arguments it was built with.\<close>

datatype py_exception = PyException (exc_type: string) (exc_args: "string list")

text \<open>
  The package logger (\<^verbatim>\<open>mlProject/__init__.py\<close>) runs at level INFO and appends every record
  to the log file and to standard output. \<^verbatim>\<open>logger.exception\<close> logs at level ERROR and attaches
  the exception being handled.
\<close>

datatype log_level = INFO | ERROR

datatype log_record = LogRecord log_level string "py_exception option"

text \<open>
  The world: the regular files with their contents, the paths the operating system refuses to
  open for writing (missing parent directory, no permission, a directory of that name) with the
  error it gives, and the records logged so far.
\<close>

record world =
  files :: "path \<rightharpoonup> string"
  write_error :: "path \<rightharpoonup> py_exception"
  logs :: "log_record list"

definition logger_info :: "string \<Rightarrow> world \<Rightarrow> world" where
  "logger_info msg w = w\<lparr>logs := logs w @ [LogRecord INFO msg None]\<rparr>"

definition logger_error :: "string \<Rightarrow> world \<Rightarrow> world" where
  "logger_error msg w = w\<lparr>logs := logs w @ [LogRecord ERROR msg None]\<rparr>"

definition logger_exception :: "string \<Rightarrow> py_exception \<Rightarrow> world \<Rightarrow> world" where
  "logger_exception msg e w = w\<lparr>logs := logs w @ [LogRecord ERROR msg (Some e)]\<rparr>"

text \<open>\<^verbatim>\<open>open(path)\<close> for reading: a path that names no file raises \<^verbatim>\<open>FileNotFoundError\<close>.\<close>

definition file_not_found :: "path \<Rightarrow> py_exception" where
  "file_not_found p = PyException ''FileNotFoundError'' [''2'', ''No such file or directory'', p]"

definition open_read :: "world \<Rightarrow> path \<Rightarrow> py_exception + string" where
  "open_read w p = (case files w p of None \<Rightarrow> Inl (file_not_found p) | Some s \<Rightarrow> Inr s)"

text \<open>
  \<^verbatim>\<open>open(path, 'w')\<close> followed by the writes of the \<^verbatim>\<open>with\<close> block: either the open is
  refused, and nothing changes, or the file is created or truncated and holds exactly what was
  written.
\<close>

definition open_write :: "world \<Rightarrow> path \<Rightarrow> string \<Rightarrow> py_exception + world" where
  "open_write w p s =
     (case write_error w p of
        Some e \<Rightarrow> Inl e
      | None \<Rightarrow> Inr (w\<lparr>files := (files w)(p \<mapsto> s)\<rparr>))"

subsection \<open>Formatting\<close>

text \<open>\<^verbatim>\<open>str(n)\<close> for a non-negative integer: its decimal digits.\<close>

definition digit_char :: "nat \<Rightarrow> char" where
  "digit_char d = ''0123456789'' ! d"

function str_nat :: "nat \<Rightarrow> string" where
  "str_nat n = (if n < 10 then [digit_char n] else str_nat (n div 10) @ [digit_char (n mod 10)])"
  by pat_completeness auto
termination
  by (relation "measure id") auto

declare str_nat.simps [simp del]

text \<open>\<^verbatim>\<open>str(b)\<close> for a boolean, as an f-string prints it.\<close>

definition str_bool :: "bool \<Rightarrow> string" where
  "str_bool b = (if b then ''True'' else ''False'')"

text \<open>\<^verbatim>\<open>sep.join(xs)\<close>.\<close>

fun join :: "string \<Rightarrow> string list \<Rightarrow> string" where
  "join sep [] = []"
| "join sep [x] = x"
| "join sep (x # y # ys) = x @ sep @ join sep (y # ys)"

text \<open>
  \<^verbatim>\<open>repr\<close> of a list of strings, which is what an f-string prints for a list: the \<^verbatim>\<open>repr\<close> of
  each element, separated by a comma and a space, in square brackets. The \<^verbatim>\<open>repr\<close> of a string
  is Python's own (quoting and escaping) and is a parameter here.
\<close>

definition repr_list :: "(string \<Rightarrow> string) \<Rightarrow> string list \<Rightarrow> string" where
  "repr_list repr_str xs = ''['' @ join '', '' (map repr_str xs) @ '']''"

text \<open>
  The \<^verbatim>\<open>repr\<close> of a string of printable ASCII characters with no quote and no backslash in it:
  the string between single quotes. It is the instance used in the worked examples.
\<close>

definition repr_plain :: "string \<Rightarrow> string" where
  "repr_plain s = [CHR 0x27] @ s @ [CHR 0x27]"

section \<open>utils/common.py\<close>

subsection \<open>get_size\<close>

text \<open>
  \<^verbatim>\<open>size_in_kb = round(os.path.getsize(path) / 1024)\<close>, then \<^verbatim>\<open>f"~ {size_in_kb} KB"\<close>.

  \<^verbatim>\<open>os.path.getsize\<close> raises for a path that names no file and returns the size in bytes
  otherwise. \<^verbatim>\<open>/\<close> is true division: the quotient of the two integers, rounded once to a
  binary64 float (53 significant bits, ties to even). Dividing by 1024 only moves the exponent,
  so the float is \<open>float53 n / 1024\<close>, where \<open>float53 n\<close> is \<open>n\<close> rounded to 53 significant bits;
  below \<open>2 ^ 53\<close> bytes nothing is rounded. \<^verbatim>\<open>round\<close> with one argument returns the nearest
  integer, a tie going to the even one.
\<close>

definition getsize :: "world \<Rightarrow> path \<Rightarrow> py_exception + nat" where
  "getsize w p = (case files w p of None \<Rightarrow> Inl (file_not_found p) | Some s \<Rightarrow> Inr (length s))"

function excess_bits :: "nat \<Rightarrow> nat" where
  "excess_bits n = (if n < 2 ^ 53 then 0 else Suc (excess_bits (n div 2)))"
  by pat_completeness auto
termination
  by (relation "measure id") auto

declare excess_bits.simps [simp del]

definition round_half_even :: "nat \<Rightarrow> nat \<Rightarrow> nat" where
  "round_half_even a b =
     (let q = a div b; r = a mod b in
      if 2 * r < b then q
      else if b < 2 * r then q + 1
      else if even q then q else q + 1)"

definition float53 :: "nat \<Rightarrow> nat" where
  "float53 n = (let e = excess_bits n in round_half_even n (2 ^ e) * 2 ^ e)"

definition get_size :: "world \<Rightarrow> path \<Rightarrow> py_exception + string" where
  "get_size w p =
     (case getsize w p of
        Inl e \<Rightarrow> Inl e
      | Inr n \<Rightarrow>
          (let size_in_kb = round_half_even (float53 n) 1024
           in Inr (''~ '' @ str_nat size_in_kb @ '' KB'')))"

subsection \<open>read_yaml\<close>

text \<open>
  \<^verbatim>\<open>yaml.safe_load\<close> and the \<^verbatim>\<open>ConfigBox\<close> constructor belong to the PyYAML and python-box
  libraries and are parameters. \<^verbatim>\<open>yaml.safe_load\<close> takes the text of the file and returns the
  parsed document or raises; the document is \<open>None\<close> for Python's \<^verbatim>\<open>None\<close>, which is what an
  empty document parses to. \<^verbatim>\<open>ConfigBox(content)\<close> returns the box or raises.

  The function body is one \<^verbatim>\<open>try\<close> with two handlers. \<^verbatim>\<open>except BoxValueError\<close> replaces the
  exception by \<^verbatim>\<open>ValueError("yaml file is empty")\<close>; \<^verbatim>\<open>except Exception as e: raise e\<close>
  raises every other exception again. python-box defines no subclass of \<^verbatim>\<open>BoxValueError\<close>, so
  the first handler is chosen by the name of the class.
\<close>

definition read_yaml_except :: "py_exception \<Rightarrow> py_exception" where
  "read_yaml_except e =
     (if exc_type e = ''BoxValueError'' then PyException ''ValueError'' [''yaml file is empty'']
      else e)"

definition read_yaml ::
  "(string \<Rightarrow> py_exception + 'y option) \<Rightarrow> ('y option \<Rightarrow> py_exception + 'b) \<Rightarrow>
   world \<Rightarrow> path \<Rightarrow> (py_exception + 'b) \<times> world"
where
  "read_yaml yaml_safe_load ConfigBox w path_to_yaml =
     (case open_read w path_to_yaml of
        Inl e \<Rightarrow> (Inl (read_yaml_except e), w)
      | Inr yaml_file \<Rightarrow>
          (case yaml_safe_load yaml_file of
             Inl e \<Rightarrow> (Inl (read_yaml_except e), w)
           | Inr content \<Rightarrow>
               (let w1 = logger_info (''yaml file: '' @ path_to_yaml @ '' loaded successfully'') w
                in case ConfigBox content of
                     Inl e \<Rightarrow> (Inl (read_yaml_except e), w1)
                   | Inr box \<Rightarrow> (Inr box, w1))))"

section \<open>components/data_validation.py\<close>

text \<open>
  The configuration object, with the three attributes the constructor's docstring lists.
  \<open>all_schema\<close> is the dictionary of expected columns as \<^verbatim>\<open>.items()\<close> yields it: the pairs of
  column name and expected type, in the order of the dictionary (\<^verbatim>\<open>.keys()\<close> yields the first
  components in the same order).
\<close>

type_synonym schema = "(string \<times> string) list"

record DataValidationConfig =
  unzip_data_dir :: path
  all_schema :: schema
  STATUS_FILE :: path

text \<open>
  The loaded \<^verbatim>\<open>DataFrame\<close>, as far as the check reads it: the column labels in order, each with
  \<^verbatim>\<open>str\<close> of the column's dtype. \<^verbatim>\<open>col in data.columns\<close> is membership among the labels and
  \<^verbatim>\<open>data[col].dtype\<close> is the lookup \<open>map_of data col\<close>.
\<close>

type_synonym table = "(string \<times> string) list"

text \<open>
  \<^verbatim>\<open>pd.read_csv\<close> belongs to pandas and is a parameter: from the path and the content of the
  file there (\<open>None\<close> when there is no such file) it returns the table or raises.
\<close>

type_synonym csv_reader = "path \<Rightarrow> string option \<Rightarrow> py_exception + table"

text \<open>\<^verbatim>\<open>[col for col in expected_columns if col not in data.columns]\<close>\<close>

definition missing_columns :: "schema \<Rightarrow> table \<Rightarrow> string list" where
  "missing_columns items data =
     (let expected_columns = map fst items
      in filter (\<lambda>col. col \<notin> set (map fst data)) expected_columns)"

text \<open>
  The loop over \<^verbatim>\<open>all_schema.items()\<close> that collects \<^verbatim>\<open>dtype_errors\<close>: a column that the data
  does not have is skipped, a column whose dtype prints differently from the expected type adds
  \<^verbatim>\<open>f"{col}: expected {expected_type}, got {data[col].dtype}"\<close>.
\<close>

fun dtype_errors :: "schema \<Rightarrow> table \<Rightarrow> string list" where
  "dtype_errors [] data = []"
| "dtype_errors ((col, expected_type) # items) data =
     (case map_of data col of
        None \<Rightarrow> dtype_errors items data
      | Some dtype \<Rightarrow>
          if dtype \<noteq> expected_type
          then (col @ '': expected '' @ expected_type @ '', got '' @ dtype) # dtype_errors items data
          else dtype_errors items data)"

text \<open>The \<^verbatim>\<open>except Exception as e\<close> handler: log the exception and raise it again.\<close>

definition validation_except :: "py_exception \<Rightarrow> world \<Rightarrow> (py_exception + bool) \<times> world" where
  "validation_except e w = (Inl e, logger_exception ''Exception occurred during validation'' e w)"

text \<open>
  The two checks of \<^verbatim>\<open>validate_all_columns\<close>, from \<^verbatim>\<open>valid = True\<close> and \<^verbatim>\<open>messages = []\<close>
  to the end of the second check. The local variables \<^verbatim>\<open>valid\<close> and \<^verbatim>\<open>messages\<close> are threaded
  through together with the world, which the logger changes; the result is their final value.
\<close>

definition check_columns ::
  "(string \<Rightarrow> string) \<Rightarrow> schema \<Rightarrow> table \<Rightarrow> world \<Rightarrow> bool \<times> string list \<times> world"
where
  "check_columns repr_str items data w1 =
     (let missing = missing_columns items data;
          (valid1, messages1, w2) =
            (if missing \<noteq> []
             then (let error_msg = ''Missing columns: '' @ repr_list repr_str missing
                   in (False, [error_msg], logger_error error_msg w1))
             else (True, [], w1));
          errors = dtype_errors items data
      in if errors \<noteq> []
         then (let error_msg = ''Data type mismatches found: '' @ repr_list repr_str errors
               in (False, messages1 @ [error_msg], logger_error error_msg w2))
         else (valid1, messages1, w2))"

text \<open>
  \<^verbatim>\<open>validate_all_columns\<close>: load the table, run the two checks, write the status file, return
  \<^verbatim>\<open>valid\<close>. The \<^verbatim>\<open>with\<close> block writes the status line and, when there are messages, the
  messages joined by newlines. Every exception raised inside the \<^verbatim>\<open>try\<close>, by the loader or by
  opening the status file, goes through the handler.
\<close>

definition validate_all_columns ::
  "csv_reader \<Rightarrow> (string \<Rightarrow> string) \<Rightarrow> DataValidationConfig \<Rightarrow> world \<Rightarrow>
   (py_exception + bool) \<times> world"
where
  "validate_all_columns read_csv repr_str config w =
     (case read_csv (unzip_data_dir config) (files w (unzip_data_dir config)) of
        Inl e \<Rightarrow> validation_except e w
      | Inr data \<Rightarrow>
          (let w1 = logger_info (''Data loaded from: '' @ unzip_data_dir config) w;
               (valid, messages, w3) = check_columns repr_str (all_schema config) data w1;
               text = ''Validation status: '' @ str_bool valid @ ''\<newline>'' @
                        (if messages \<noteq> [] then join ''\<newline>'' messages else [])
           in case open_write w3 (STATUS_FILE config) text of
                Inl e \<Rightarrow> validation_except e w3
              | Inr w4 \<Rightarrow>
                  (Inr valid,
                   if valid then logger_info ''All validations passed successfully.'' w4 else w4)))"

section \<open>Worked examples\<close>

text \<open>
  A stand-in for \<^verbatim>\<open>pd.read_csv\<close> that knows the tables of a few file contents: a missing file
  raises \<^verbatim>\<open>FileNotFoundError\<close>, any other content raises \<^verbatim>\<open>EmptyDataError\<close>.
\<close>

definition stub_read_csv :: "(string \<times> table) list \<Rightarrow> csv_reader" where
  "stub_read_csv known p content =
     (case content of
        None \<Rightarrow> Inl (file_not_found p)
      | Some s \<Rightarrow>
          (case map_of known s of
             None \<Rightarrow> Inl (PyException ''EmptyDataError'' [''No columns to parse from file''])
           | Some t \<Rightarrow> Inr t))"

definition ex_schema :: schema where
  "ex_schema = [(''a'', ''int64''), (''b'', ''float64''), (''c'', ''object'')]"

definition ex_good_csv :: string where
  "ex_good_csv = ''a,b,c\<newline>1,2.5,x\<newline>''"

definition ex_good_table :: table where
  "ex_good_table = [(''a'', ''int64''), (''b'', ''float64''), (''c'', ''object'')]"

definition ex_bad_csv :: string where
  "ex_bad_csv = ''c,d\<newline>1,x\<newline>''"

definition ex_bad_table :: table where
  "ex_bad_table = [(''c'', ''int64''), (''d'', ''object'')]"

definition ex_read_csv :: csv_reader where
  "ex_read_csv = stub_read_csv [(ex_good_csv, ex_good_table), (ex_bad_csv, ex_bad_table)]"

definition ex_config :: DataValidationConfig where
  "ex_config = \<lparr>unzip_data_dir = ''data.csv'', all_schema = ex_schema, STATUS_FILE = ''status.txt''\<rparr>"

definition ex_world :: "string \<Rightarrow> world" where
  "ex_world csv =
     \<lparr>files = [''data.csv'' \<mapsto> csv, ''status.txt'' \<mapsto> ''stale''],
      write_error = Map.empty, logs = []\<rparr>"

definition ex_world_no_data :: world where
  "ex_world_no_data = \<lparr>files = [''status.txt'' \<mapsto> ''stale''], write_error = Map.empty, logs = []\<rparr>"

text \<open>
  Stand-ins for the two library calls of \<^verbatim>\<open>read_yaml\<close>: a parser that reads the empty text as
  the empty document, a text of the form \<^verbatim>\<open>key: value\<close> as a one-entry mapping and rejects
  the text \<^verbatim>\<open>{\<close>; and a box constructor that refuses \<^verbatim>\<open>None\<close> the way python-box does.
\<close>

definition ex_safe_load :: "string \<Rightarrow> py_exception + (string \<times> string) list option" where
  "ex_safe_load s =
     (if s = [] then Inr None
      else if s = ''{'' then Inl (PyException ''ParserError'' [''while parsing a flow node''])
      else Inr (Some [(takeWhile (\<lambda>c. c \<noteq> CHR '':'') s, drop 2 (dropWhile (\<lambda>c. c \<noteq> CHR '':'') s))]))"

definition ex_config_box ::
  "(string \<times> string) list option \<Rightarrow> py_exception + (string \<times> string) list" where
  "ex_config_box content =
     (case content of
        None \<Rightarrow> Inl (PyException ''BoxValueError'' [''First argument must be mapping or iterable''])
      | Some m \<Rightarrow> Inr m)"

definition ex_yaml_world :: "string \<Rightarrow> world" where
  "ex_yaml_world s = \<lparr>files = [''schema.yaml'' \<mapsto> s], write_error = Map.empty, logs = []\<rparr>"

section \<open>Properties of get_size\<close>

lemma float53_small: "n < 2 ^ 53 \<Longrightarrow> float53 n = n"
  by (simp add: float53_def excess_bits.simps [of n] round_half_even_def)

lemma get_size_file:
  assumes "files w p = Some s" and "length s < 2 ^ 53"
  shows "get_size w p = Inr (''~ '' @ str_nat (round_half_even (length s) 1024) @ '' KB'')"
  using assms by (simp add: get_size_def getsize_def float53_small)

lemma str_nat_digit: "n < 10 \<Longrightarrow> str_nat n = [digit_char n]"
  by (simp add: str_nat.simps [of n])

lemma str_nat_small: "str_nat (Suc 0) = ''1''" "str_nat 2 = ''2''" "str_nat 4 = ''4''"
  by (simp_all add: str_nat_digit digit_char_def)

lemma round_half_even_examples:
  "round_half_even 2048 1024 = 2" "round_half_even 1500 1024 = 1"
  "round_half_even 2560 1024 = 2" "round_half_even 3584 1024 = 4"
  by (simp_all add: round_half_even_def Let_def)

lemma round_half_even_nearest:
  assumes "1024 * k < n + 512" and "n < 1024 * k + 512"
  shows "round_half_even n 1024 = k"
proof -
  define q where "q = n div 1024"
  define r where "r = n mod 1024"
  have n: "n = 1024 * q + r" and r: "r < 1024"
    by (simp_all add: q_def r_def)
  have rhe: "round_half_even n 1024 =
      (if 2 * r < 1024 then q else if 1024 < 2 * r then q + 1 else if even q then q else q + 1)"
    by (simp add: round_half_even_def Let_def q_def r_def)
  consider "r < 512" | "512 < r" | "r = 512" by linarith
  then show ?thesis
  proof cases
    case 1
    then have "q = k" using n r assms by linarith
    with 1 show ?thesis by (simp add: rhe)
  next
    case 2
    then have "q + 1 = k" using n r assms by linarith
    with 2 show ?thesis by (simp add: rhe)
  next
    case 3
    with n assms have "1024 * k < 1024 * (q + 1)" and "1024 * q < 1024 * k"
      by simp_all
    then have "k < q + 1" and "q < k"
      by simp_all
    then show ?thesis by simp
  qed
qed

text \<open>
  Claim C7. A file of exactly 2048 bytes is reported as \<^verbatim>\<open>~ 2 KB\<close> and a file of exactly 1500
  bytes as \<^verbatim>\<open>~ 1 KB\<close>. In general the number reported is the size in bytes divided by 1024
  and rounded to the nearest integer: for a file below \<open>2 ^ 53\<close> bytes, whenever \<open>k\<close> is the
  integer strictly nearest to the quotient (the size lies less than 512 bytes from \<open>1024 * k\<close>),
  the report is \<^verbatim>\<open>~ k KB\<close>. So 2047 bytes give \<^verbatim>\<open>~ 2 KB\<close>, where rounding down would give 1.
\<close>

theorem get_size_examples:
  "files w p = Some s \<Longrightarrow>
     (length s = 2048 \<longrightarrow> get_size w p = Inr ''~ 2 KB'') \<and>
     (length s = 1500 \<longrightarrow> get_size w p = Inr ''~ 1 KB'') \<and>
     (length s < 2 ^ 53 \<and> 1024 * k < length s + 512 \<and> length s < 1024 * k + 512 \<longrightarrow>
        get_size w p = Inr (''~ '' @ str_nat k @ '' KB''))"
proof (intro conjI impI)
  assume f: "files w p = Some s"
  show "get_size w p = Inr ''~ 2 KB''" if "length s = 2048"
    using f that by (simp add: get_size_file round_half_even_examples str_nat_small)
  show "get_size w p = Inr ''~ 1 KB''" if "length s = 1500"
    using f that by (simp add: get_size_file round_half_even_examples str_nat_small)
  show "get_size w p = Inr (''~ '' @ str_nat k @ '' KB'')"
    if h: "length s < 2 ^ 53 \<and> 1024 * k < length s + 512 \<and> length s < 1024 * k + 512"
  proof -
    from h have "round_half_even (length s) 1024 = k"
      by (intro round_half_even_nearest) simp_all
    with f h show ?thesis by (simp add: get_size_file)
  qed
qed

theorem get_size_examples_witness:
  "files (ex_yaml_world (replicate 2048 CHR ''a'')) ''schema.yaml'' = Some (replicate 2048 CHR ''a'') \<and>
   length (replicate 2048 CHR ''a'') = 2048 \<and>
   get_size (ex_yaml_world (replicate 2048 CHR ''a'')) ''schema.yaml'' = Inr ''~ 2 KB'' \<and>
   files (ex_yaml_world (replicate 1500 CHR ''a'')) ''schema.yaml'' = Some (replicate 1500 CHR ''a'') \<and>
   length (replicate 1500 CHR ''a'') = 1500 \<and>
   get_size (ex_yaml_world (replicate 1500 CHR ''a'')) ''schema.yaml'' = Inr ''~ 1 KB'' \<and>
   files (ex_yaml_world (replicate 2047 CHR ''a'')) ''schema.yaml'' = Some (replicate 2047 CHR ''a'') \<and>
   length (replicate 2047 CHR ''a'') < 2 ^ 53 \<and>
   1024 * 2 < length (replicate 2047 CHR ''a'') + 512 \<and>
   length (replicate 2047 CHR ''a'') < 1024 * 2 + 512 \<and>
   get_size (ex_yaml_world (replicate 2047 CHR ''a'')) ''schema.yaml'' = Inr ''~ 2 KB''"
  using get_size_examples [of "ex_yaml_world (replicate 2048 CHR ''a'')" "''schema.yaml''" "replicate 2048 CHR ''a''"]
    get_size_examples [of "ex_yaml_world (replicate 1500 CHR ''a'')" "''schema.yaml''" "replicate 1500 CHR ''a''"]
    get_size_examples [of "ex_yaml_world (replicate 2047 CHR ''a'')" "''schema.yaml''" "replicate 2047 CHR ''a''" 2]
  by (simp add: ex_yaml_world_def str_nat_small)

text \<open>
  Claim C10. The kilobyte value is rounded half to even: a file of exactly 2560 bytes (2.5 KB)
  is reported as \<^verbatim>\<open>~ 2 KB\<close> and a file of exactly 3584 bytes (3.5 KB) as \<^verbatim>\<open>~ 4 KB\<close>; in
  general a size of \<open>1024 * q + 512\<close> bytes below \<open>2 ^ 53\<close> is reported with the even one of
  \<open>q\<close> and \<open>q + 1\<close>.
\<close>

theorem get_size_half_even:
  "files w p = Some s \<Longrightarrow>
     (length s = 2560 \<longrightarrow> get_size w p = Inr ''~ 2 KB'') \<and>
     (length s = 3584 \<longrightarrow> get_size w p = Inr ''~ 4 KB'') \<and>
     (\<forall>q. length s = 1024 * q + 512 \<and> length s < 2 ^ 53 \<longrightarrow>
          get_size w p = Inr (''~ '' @ str_nat (if even q then q else q + 1) @ '' KB''))"
  by (auto simp add: get_size_file round_half_even_examples str_nat_small round_half_even_def Let_def)

theorem get_size_half_even_witness:
  "files (ex_yaml_world (replicate 2560 CHR ''a'')) ''schema.yaml'' = Some (replicate 2560 CHR ''a'') \<and>
   length (replicate 2560 CHR ''a'') = 2560 \<and>
   length (replicate 2560 CHR ''a'') = 1024 * 2 + 512 \<and>
   length (replicate 2560 CHR ''a'') < 2 ^ 53 \<and>
   get_size (ex_yaml_world (replicate 2560 CHR ''a'')) ''schema.yaml'' = Inr ''~ 2 KB'' \<and>
   get_size (ex_yaml_world (replicate 2560 CHR ''a'')) ''schema.yaml'' =
     Inr (''~ '' @ str_nat (if even (2::nat) then 2 else 2 + 1) @ '' KB'') \<and>
   files (ex_yaml_world (replicate 3584 CHR ''a'')) ''schema.yaml'' = Some (replicate 3584 CHR ''a'') \<and>
   length (replicate 3584 CHR ''a'') = 3584 \<and>
   get_size (ex_yaml_world (replicate 3584 CHR ''a'')) ''schema.yaml'' = Inr ''~ 4 KB''"
  using get_size_half_even [of "ex_yaml_world (replicate 2560 CHR ''a'')" "''schema.yaml''" "replicate 2560 CHR ''a''"]
    get_size_half_even [of "ex_yaml_world (replicate 3584 CHR ''a'')" "''schema.yaml''" "replicate 3584 CHR ''a''"]
  by (simp add: ex_yaml_world_def str_nat_small)

section \<open>Properties of validate_all_columns\<close>

lemma missing_columns_Nil_iff:
  "missing_columns S T = [] \<longleftrightarrow> set (map fst S) \<subseteq> set (map fst T)"
  by (auto simp: missing_columns_def filter_empty_conv)

lemma dtype_errors_Nil_iff:
  "dtype_errors S T = [] \<longleftrightarrow>
     (\<forall>(col, expected_type) \<in> set S. \<forall>dtype. map_of T col = Some dtype \<longrightarrow> dtype = expected_type)"
  by (induction S T rule: dtype_errors.induct) (auto split: option.splits)

lemma check_columns_eq:
  "check_columns repr_str S T w =
     (missing_columns S T = [] \<and> dtype_errors S T = [],
      (if missing_columns S T = [] then []
       else [''Missing columns: '' @ repr_list repr_str (missing_columns S T)]) @
      (if dtype_errors S T = [] then []
       else [''Data type mismatches found: '' @ repr_list repr_str (dtype_errors S T)]),
      w\<lparr>logs := logs w @
         (if missing_columns S T = [] then []
          else [LogRecord ERROR (''Missing columns: '' @ repr_list repr_str (missing_columns S T)) None]) @
         (if dtype_errors S T = [] then []
          else [LogRecord ERROR
                  (''Data type mismatches found: '' @ repr_list repr_str (dtype_errors S T)) None])\<rparr>)"
  by (simp add: check_columns_def Let_def logger_error_def)

lemma validate_load_error:
  assumes "read_csv (unzip_data_dir c) (files w (unzip_data_dir c)) = Inl e"
  shows "validate_all_columns read_csv repr_str c w =
           (Inl e, w\<lparr>logs := logs w @ [LogRecord ERROR ''Exception occurred during validation'' (Some e)]\<rparr>)"
  using assms by (simp add: validate_all_columns_def validation_except_def logger_exception_def)

lemma validate_write_error:
  assumes "read_csv (unzip_data_dir c) (files w (unzip_data_dir c)) = Inr T"
    and "write_error w (STATUS_FILE c) = Some e"
  shows "fst (validate_all_columns read_csv repr_str c w) = Inl e"
    and "files (snd (validate_all_columns read_csv repr_str c w)) = files w"
    and "write_error (snd (validate_all_columns read_csv repr_str c w)) = write_error w"
  using assms
  by (simp_all add: validate_all_columns_def check_columns_eq Let_def open_write_def
        logger_info_def validation_except_def logger_exception_def)

lemma validate_loaded:
  assumes "read_csv (unzip_data_dir c) (files w (unzip_data_dir c)) = Inr T"
    and "write_error w (STATUS_FILE c) = None"
  shows "fst (validate_all_columns read_csv repr_str c w) =
           Inr (missing_columns (all_schema c) T = [] \<and> dtype_errors (all_schema c) T = [])"
  using assms
  by (simp add: validate_all_columns_def check_columns_eq Let_def open_write_def logger_info_def)

lemma validate_loaded_files:
  assumes "read_csv (unzip_data_dir c) (files w (unzip_data_dir c)) = Inr T"
    and "write_error w (STATUS_FILE c) = None"
  shows "files (snd (validate_all_columns read_csv repr_str c w)) =
           (files w)(STATUS_FILE c \<mapsto>
              ''Validation status: '' @
              str_bool (missing_columns (all_schema c) T = [] \<and> dtype_errors (all_schema c) T = []) @
              ''\<newline>'' @
              join ''\<newline>''
                ((if missing_columns (all_schema c) T = [] then []
                  else [''Missing columns: '' @ repr_list repr_str (missing_columns (all_schema c) T)]) @
                 (if dtype_errors (all_schema c) T = [] then []
                  else [''Data type mismatches found: '' @
                          repr_list repr_str (dtype_errors (all_schema c) T)])))"
  using assms
  by (simp add: validate_all_columns_def check_columns_eq Let_def open_write_def logger_info_def)

lemma validate_loaded_write_error:
  assumes "read_csv (unzip_data_dir c) (files w (unzip_data_dir c)) = Inr T"
    and "write_error w (STATUS_FILE c) = None"
  shows "write_error (snd (validate_all_columns read_csv repr_str c w)) = write_error w"
  using assms
  by (simp add: validate_all_columns_def check_columns_eq Let_def open_write_def logger_info_def)

lemma ex_good_facts:
  "ex_read_csv ''data.csv'' (files (ex_world ex_good_csv) ''data.csv'') = Inr ex_good_table"
  "write_error (ex_world ex_good_csv) ''status.txt'' = None"
  by (simp_all add: ex_read_csv_def stub_read_csv_def ex_world_def ex_good_csv_def ex_bad_csv_def)

lemma ex_bad_facts:
  "ex_read_csv ''data.csv'' (files (ex_world ex_bad_csv) ''data.csv'') = Inr ex_bad_table"
  "write_error (ex_world ex_bad_csv) ''status.txt'' = None"
  by (simp_all add: ex_read_csv_def stub_read_csv_def ex_world_def ex_good_csv_def ex_bad_csv_def)

lemma ex_config_simps:
  "unzip_data_dir ex_config = ''data.csv''" "STATUS_FILE ex_config = ''status.txt''"
  "all_schema ex_config = ex_schema"
  by (simp_all add: ex_config_def)

lemma ex_stale: "files (ex_world csv) ''status.txt'' = Some ''stale''"
  by (simp add: ex_world_def)

lemma ex_missing: "missing_columns ex_schema ex_bad_table = [''a'', ''b'']"
  "dtype_errors ex_schema ex_bad_table = [''c: expected object, got int64'']"
  "missing_columns ex_schema ex_good_table = []"
  "dtype_errors ex_schema ex_good_table = []"
  by (simp_all add: missing_columns_def ex_schema_def ex_bad_table_def ex_good_table_def)

lemma ex_no_data_facts:
  "ex_read_csv ''data.csv'' (files ex_world_no_data ''data.csv'') = Inl (file_not_found ''data.csv'')"
  "files ex_world_no_data ''status.txt'' = Some ''stale''"
  by (simp_all add: ex_read_csv_def stub_read_csv_def ex_world_no_data_def)

lemma validate_write_error_unchanged:
  "write_error (snd (validate_all_columns read_csv repr_str c w)) = write_error w"
proof (cases "read_csv (unzip_data_dir c) (files w (unzip_data_dir c))")
  case (Inl e)
  then show ?thesis by (simp add: validate_load_error)
next
  case (Inr T)
  then show ?thesis
    by (cases "write_error w (STATUS_FILE c)")
       (simp_all add: validate_loaded_write_error validate_write_error)
qed

lemma validate_keeps_other_files:
  assumes "p \<noteq> STATUS_FILE c"
  shows "files (snd (validate_all_columns read_csv repr_str c w)) p = files w p"
proof (cases "read_csv (unzip_data_dir c) (files w (unzip_data_dir c))")
  case (Inl e)
  then show ?thesis by (simp add: validate_load_error)
next
  case (Inr T)
  then show ?thesis using assms
    by (cases "write_error w (STATUS_FILE c)")
       (simp_all add: validate_loaded_files validate_write_error)
qed

text \<open>
  Claim C1. When the table loads and the status file can be opened for writing,
  \<^verbatim>\<open>validate_all_columns\<close> returns a boolean, and it is true if and only if every key of the
  schema is among the table's columns and, for every schema column that the table has, the
  table's dtype tag equals the expected tag as a string.
\<close>

theorem validate_true_iff:
  assumes "read_csv (unzip_data_dir c) (files w (unzip_data_dir c)) = Inr T"
    and "write_error w (STATUS_FILE c) = None"
  shows "fst (validate_all_columns read_csv repr_str c w) =
           Inr (set (map fst (all_schema c)) \<subseteq> set (map fst T) \<and>
                (\<forall>(col, expected_type) \<in> set (all_schema c).
                    \<forall>dtype. map_of T col = Some dtype \<longrightarrow> dtype = expected_type))"
  using assms validate_loaded [where read_csv = read_csv and c = c and w = w and T = T]
  by (simp add: missing_columns_Nil_iff dtype_errors_Nil_iff)

theorem validate_true_iff_witness:
  "ex_read_csv (unzip_data_dir ex_config) (files (ex_world ex_good_csv) (unzip_data_dir ex_config)) =
     Inr ex_good_table \<and>
   write_error (ex_world ex_good_csv) (STATUS_FILE ex_config) = None \<and>
   fst (validate_all_columns ex_read_csv repr_plain ex_config (ex_world ex_good_csv)) = Inr True \<and>
   ex_read_csv (unzip_data_dir ex_config) (files (ex_world ex_bad_csv) (unzip_data_dir ex_config)) =
     Inr ex_bad_table \<and>
   write_error (ex_world ex_bad_csv) (STATUS_FILE ex_config) = None \<and>
   fst (validate_all_columns ex_read_csv repr_plain ex_config (ex_world ex_bad_csv)) = Inr False"
  using validate_true_iff [where read_csv = ex_read_csv and c = ex_config
      and w = "ex_world ex_good_csv" and T = ex_good_table and repr_str = repr_plain]
    validate_true_iff [where read_csv = ex_read_csv and c = ex_config
      and w = "ex_world ex_bad_csv" and T = ex_bad_table and repr_str = repr_plain]
  by (simp add: ex_config_simps ex_good_facts ex_bad_facts ex_schema_def ex_good_table_def
        ex_bad_table_def)

text \<open>
  Claim C2. In every run that loads the table and writes the status file, the boolean
  returned is the final value of \<^verbatim>\<open>valid\<close>, and it is false if and only if the accumulated list
  \<^verbatim>\<open>messages\<close> is not empty. When columns are missing and dtypes differ as well, the list holds
  both messages, the missing-columns one first, and the status file shows both.
\<close>

theorem report_invariant:
  assumes "read_csv (unzip_data_dir c) (files w (unzip_data_dir c)) = Inr T"
    and "write_error w (STATUS_FILE c) = None"
  shows "case check_columns repr_str (all_schema c) T
                (logger_info (''Data loaded from: '' @ unzip_data_dir c) w) of
           (valid, messages, w3) \<Rightarrow>
             fst (validate_all_columns read_csv repr_str c w) = Inr valid \<and>
             (valid = False \<longleftrightarrow> messages \<noteq> []) \<and>
             (missing_columns (all_schema c) T \<noteq> [] \<and> dtype_errors (all_schema c) T \<noteq> [] \<longrightarrow>
                messages =
                  [''Missing columns: '' @ repr_list repr_str (missing_columns (all_schema c) T),
                   ''Data type mismatches found: '' @
                     repr_list repr_str (dtype_errors (all_schema c) T)] \<and>
                files (snd (validate_all_columns read_csv repr_str c w)) (STATUS_FILE c) =
                  Some (''Validation status: False\<newline>'' @
                        ''Missing columns: '' @ repr_list repr_str (missing_columns (all_schema c) T) @
                        ''\<newline>'' @
                        ''Data type mismatches found: '' @
                          repr_list repr_str (dtype_errors (all_schema c) T)))"
  using assms
    validate_loaded [where read_csv = read_csv and c = c and w = w and T = T and repr_str = repr_str]
    validate_loaded_files [where read_csv = read_csv and c = c and w = w and T = T and repr_str = repr_str]
  by (simp add: check_columns_eq str_bool_def)

theorem report_invariant_witness:
  "ex_read_csv (unzip_data_dir ex_config) (files (ex_world ex_bad_csv) (unzip_data_dir ex_config)) =
     Inr ex_bad_table \<and>
   write_error (ex_world ex_bad_csv) (STATUS_FILE ex_config) = None \<and>
   missing_columns (all_schema ex_config) ex_bad_table \<noteq> [] \<and>
   dtype_errors (all_schema ex_config) ex_bad_table \<noteq> [] \<and>
   fst (validate_all_columns ex_read_csv repr_plain ex_config (ex_world ex_bad_csv)) = Inr False \<and>
   files (snd (validate_all_columns ex_read_csv repr_plain ex_config (ex_world ex_bad_csv)))
       (STATUS_FILE ex_config) =
     Some (''Validation status: False\<newline>'' @
           ''Missing columns: ['' @ [CHR 0x27] @ ''a'' @ [CHR 0x27] @ '', '' @
              [CHR 0x27] @ ''b'' @ [CHR 0x27] @ '']'' @ ''\<newline>'' @
           ''Data type mismatches found: ['' @ [CHR 0x27] @ ''c: expected object, got int64'' @
              [CHR 0x27] @ '']'')"
  using report_invariant [where read_csv = ex_read_csv and c = ex_config
      and w = "ex_world ex_bad_csv" and T = ex_bad_table and repr_str = repr_plain]
  by (simp add: ex_config_simps ex_bad_facts ex_missing check_columns_eq repr_list_def
        repr_plain_def)

text \<open>
  Claim C3. In every run in which the table loads (and the status path can be opened for
  writing), the status file is overwritten, whatever it held before: its first line is
  \<^verbatim>\<open>Validation status: \<close> followed by \<^verbatim>\<open>True\<close> or \<^verbatim>\<open>False\<close>, and after the newline come the
  accumulated messages joined by newlines, when there are any. When \<^verbatim>\<open>valid\<close> is true the file
  is exactly the one line \<^verbatim>\<open>Validation status: True\<close>.
\<close>

theorem status_file_written:
  assumes "read_csv (unzip_data_dir c) (files w (unzip_data_dir c)) = Inr T"
    and "write_error w (STATUS_FILE c) = None"
  shows "case check_columns repr_str (all_schema c) T
                (logger_info (''Data loaded from: '' @ unzip_data_dir c) w) of
           (valid, messages, w3) \<Rightarrow>
             files (snd (validate_all_columns read_csv repr_str c w)) (STATUS_FILE c) =
               Some (''Validation status: '' @ str_bool valid @ ''\<newline>'' @
                     (if messages \<noteq> [] then join ''\<newline>'' messages else [])) \<and>
             (valid \<longrightarrow>
                files (snd (validate_all_columns read_csv repr_str c w)) (STATUS_FILE c) =
                  Some ''Validation status: True\<newline>'')"
  using assms
    validate_loaded_files [where read_csv = read_csv and c = c and w = w and T = T and repr_str = repr_str]
  by (simp add: check_columns_eq str_bool_def)

theorem status_file_written_witness:
  "ex_read_csv (unzip_data_dir ex_config) (files (ex_world ex_good_csv) (unzip_data_dir ex_config)) =
     Inr ex_good_table \<and>
   write_error (ex_world ex_good_csv) (STATUS_FILE ex_config) = None \<and>
   files (ex_world ex_good_csv) (STATUS_FILE ex_config) = Some ''stale'' \<and>
   fst (check_columns repr_plain (all_schema ex_config) ex_good_table
          (logger_info (''Data loaded from: '' @ unzip_data_dir ex_config) (ex_world ex_good_csv))) \<and>
   files (snd (validate_all_columns ex_read_csv repr_plain ex_config (ex_world ex_good_csv)))
       (STATUS_FILE ex_config) = Some ''Validation status: True\<newline>''"
  using status_file_written [where read_csv = ex_read_csv and c = ex_config
      and w = "ex_world ex_good_csv" and T = ex_good_table and repr_str = repr_plain]
  by (simp add: ex_config_simps ex_good_facts ex_missing check_columns_eq ex_stale str_bool_def)

text \<open>
  Claim C4. When loading the table raises, \<^verbatim>\<open>validate_all_columns\<close> raises that exception to
  its caller and leaves every file as it was: no status file is written, and one left by an
  earlier run keeps its content.
\<close>

theorem load_error_aborts:
  assumes "read_csv (unzip_data_dir c) (files w (unzip_data_dir c)) = Inl e"
  shows "fst (validate_all_columns read_csv repr_str c w) = Inl e \<and>
         files (snd (validate_all_columns read_csv repr_str c w)) = files w"
  using assms validate_load_error [where read_csv = read_csv and c = c and w = w and e = e]
  by simp

theorem load_error_aborts_witness:
  "ex_read_csv (unzip_data_dir ex_config) (files ex_world_no_data (unzip_data_dir ex_config)) =
     Inl (file_not_found ''data.csv'') \<and>
   fst (validate_all_columns ex_read_csv repr_plain ex_config ex_world_no_data) =
     Inl (file_not_found ''data.csv'') \<and>
   files (snd (validate_all_columns ex_read_csv repr_plain ex_config ex_world_no_data)) ''status.txt'' =
     Some ''stale''"
  using load_error_aborts [where read_csv = ex_read_csv and c = ex_config and w = ex_world_no_data
      and e = "file_not_found ''data.csv''" and repr_str = repr_plain]
  by (simp add: ex_config_simps ex_no_data_facts)

text \<open>
  Claim C5 says that a failure to load the table surfaces as a \<^verbatim>\<open>DataLoadError\<close> wrapping the
  cause. The handler is \<^verbatim>\<open>raise e\<close>: with no data file the caller receives the loader's
  \<^verbatim>\<open>FileNotFoundError\<close> itself, whose class is not \<^verbatim>\<open>DataLoadError\<close>.
\<close>

theorem load_error_not_wrapped:
  "fst (validate_all_columns ex_read_csv repr_plain ex_config ex_world_no_data) =
     Inl (PyException ''FileNotFoundError'' [''2'', ''No such file or directory'', ''data.csv'']) \<and>
   exc_type (PyException ''FileNotFoundError'' [''2'', ''No such file or directory'', ''data.csv''])
     \<noteq> ''DataLoadError''"
  using validate_load_error [where read_csv = ex_read_csv and c = ex_config and w = ex_world_no_data
      and e = "file_not_found ''data.csv''" and repr_str = repr_plain]
  by (simp add: ex_config_simps ex_no_data_facts file_not_found_def)

text \<open>
  Claim C5, amended. When loading the table raises an exception, \<^verbatim>\<open>validate_all_columns\<close>
  logs it once at level ERROR and raises the very same exception, with the class and the
  arguments the loader gave it: nothing wraps it, nothing masks it, the load is not tried again,
  and apart from the log record the world is unchanged.
\<close>

theorem load_error_reraised:
  assumes "read_csv (unzip_data_dir c) (files w (unzip_data_dir c)) = Inl e"
  shows "validate_all_columns read_csv repr_str c w =
           (Inl e,
            w\<lparr>logs := logs w @
                 [LogRecord ERROR ''Exception occurred during validation'' (Some e)]\<rparr>)"
  using assms by (rule validate_load_error)

theorem load_error_reraised_witness:
  "ex_read_csv (unzip_data_dir ex_config) (files ex_world_no_data (unzip_data_dir ex_config)) =
     Inl (file_not_found ''data.csv'') \<and>
   validate_all_columns ex_read_csv repr_plain ex_config ex_world_no_data =
     (Inl (file_not_found ''data.csv''),
      ex_world_no_data\<lparr>logs := logs ex_world_no_data @
         [LogRecord ERROR ''Exception occurred during validation''
            (Some (file_not_found ''data.csv''))]\<rparr>)"
  using load_error_reraised [where read_csv = ex_read_csv and c = ex_config and w = ex_world_no_data
      and e = "file_not_found ''data.csv''" and repr_str = repr_plain]
  by (simp add: ex_config_simps ex_no_data_facts)

text \<open>
  Claim C9. With an empty schema, whenever the table loads (and the status path can be opened
  for writing), \<^verbatim>\<open>validate_all_columns\<close> returns true whatever columns the table has, and the
  status file reads \<^verbatim>\<open>Validation status: True\<close>.
\<close>

theorem empty_schema_valid:
  assumes "read_csv (unzip_data_dir c) (files w (unzip_data_dir c)) = Inr T"
    and "write_error w (STATUS_FILE c) = None"
    and "all_schema c = []"
  shows "fst (validate_all_columns read_csv repr_str c w) = Inr True \<and>
         files (snd (validate_all_columns read_csv repr_str c w)) (STATUS_FILE c) =
           Some ''Validation status: True\<newline>''"
  using assms
    validate_loaded [where read_csv = read_csv and c = c and w = w and T = T and repr_str = repr_str]
    validate_loaded_files [where read_csv = read_csv and c = c and w = w and T = T and repr_str = repr_str]
  by (simp add: missing_columns_def str_bool_def)

theorem empty_schema_valid_witness:
  "ex_read_csv (unzip_data_dir (ex_config\<lparr>all_schema := []\<rparr>))
      (files (ex_world ex_bad_csv) (unzip_data_dir (ex_config\<lparr>all_schema := []\<rparr>))) = Inr ex_bad_table \<and>
   write_error (ex_world ex_bad_csv) (STATUS_FILE (ex_config\<lparr>all_schema := []\<rparr>)) = None \<and>
   all_schema (ex_config\<lparr>all_schema := []\<rparr>) = [] \<and>
   fst (validate_all_columns ex_read_csv repr_plain (ex_config\<lparr>all_schema := []\<rparr>)
          (ex_world ex_bad_csv)) = Inr True \<and>
   files (snd (validate_all_columns ex_read_csv repr_plain (ex_config\<lparr>all_schema := []\<rparr>)
                 (ex_world ex_bad_csv))) (STATUS_FILE (ex_config\<lparr>all_schema := []\<rparr>)) =
     Some ''Validation status: True\<newline>''"
  using empty_schema_valid [where read_csv = ex_read_csv and c = "ex_config\<lparr>all_schema := []\<rparr>"
      and w = "ex_world ex_bad_csv" and T = ex_bad_table and repr_str = repr_plain]
  by (simp add: ex_config_simps ex_bad_facts)

text \<open>
  Claim C8. Running \<^verbatim>\<open>validate_all_columns\<close> a second time on unchanged inputs (the same
  configuration, and a data file that the first run left as it was, which is the case whenever
  the status path is not the data path) gives the same outcome as the first run, the same
  boolean or the same exception, and leaves the status file with the content the first run
  gave it.
\<close>

theorem validate_idempotent:
  assumes "files (snd (validate_all_columns read_csv repr_str c w)) (unzip_data_dir c) =
           files w (unzip_data_dir c)"
  shows "fst (validate_all_columns read_csv repr_str c
                (snd (validate_all_columns read_csv repr_str c w))) =
           fst (validate_all_columns read_csv repr_str c w) \<and>
         files (snd (validate_all_columns read_csv repr_str c
                       (snd (validate_all_columns read_csv repr_str c w)))) (STATUS_FILE c) =
           files (snd (validate_all_columns read_csv repr_str c w)) (STATUS_FILE c)"
proof -
  let ?w1 = "snd (validate_all_columns read_csv repr_str c w)"
  have we: "write_error ?w1 = write_error w"
    by (rule validate_write_error_unchanged)
  show ?thesis
  proof (cases "read_csv (unzip_data_dir c) (files w (unzip_data_dir c))")
    case (Inl e)
    then have "read_csv (unzip_data_dir c) (files ?w1 (unzip_data_dir c)) = Inl e"
      using assms by simp
    with Inl show ?thesis by (simp add: validate_load_error)
  next
    case (Inr T)
    then have r1: "read_csv (unzip_data_dir c) (files ?w1 (unzip_data_dir c)) = Inr T"
      using assms by simp
    show ?thesis
    proof (cases "write_error w (STATUS_FILE c)")
      case None
      then have "write_error ?w1 (STATUS_FILE c) = None" using we by simp
      with r1 Inr None show ?thesis
        by (simp add: validate_loaded validate_loaded_files)
    next
      case (Some e)
      then have "write_error ?w1 (STATUS_FILE c) = Some e" using we by simp
      with r1 Inr Some show ?thesis
        by (simp add: validate_write_error)
    qed
  qed
qed

theorem validate_idempotent_witness:
  "files (snd (validate_all_columns ex_read_csv repr_plain ex_config (ex_world ex_good_csv)))
     (unzip_data_dir ex_config) = files (ex_world ex_good_csv) (unzip_data_dir ex_config) \<and>
   fst (validate_all_columns ex_read_csv repr_plain ex_config
          (snd (validate_all_columns ex_read_csv repr_plain ex_config (ex_world ex_good_csv)))) =
     fst (validate_all_columns ex_read_csv repr_plain ex_config (ex_world ex_good_csv)) \<and>
   files (snd (validate_all_columns ex_read_csv repr_plain ex_config
                 (snd (validate_all_columns ex_read_csv repr_plain ex_config (ex_world ex_good_csv)))))
       (STATUS_FILE ex_config) =
     files (snd (validate_all_columns ex_read_csv repr_plain ex_config (ex_world ex_good_csv)))
       (STATUS_FILE ex_config)"
  using validate_idempotent [where read_csv = ex_read_csv and c = ex_config
      and w = "ex_world ex_good_csv" and repr_str = repr_plain]
  by (simp add: ex_config_simps validate_keeps_other_files)

section \<open>Properties of read_yaml\<close>

text \<open>
  Claim C6. When the file parses to nothing (\<^verbatim>\<open>yaml.safe_load\<close> returns \<^verbatim>\<open>None\<close>, which the
  \<^verbatim>\<open>ConfigBox\<close> constructor refuses with \<^verbatim>\<open>BoxValueError\<close>), \<^verbatim>\<open>read_yaml\<close> raises
  \<^verbatim>\<open>ValueError("yaml file is empty")\<close>, the error that the specification calls
  \<^verbatim>\<open>EmptyConfigError\<close>. When the parser raises instead, its exception reaches the caller
  unchanged.
\<close>

theorem read_yaml_errors:
  assumes "files w p = Some s"
  shows "(\<forall>e. yaml_safe_load s = Inr None \<and> ConfigBox None = Inl e \<and> exc_type e = ''BoxValueError'' \<longrightarrow>
            fst (read_yaml yaml_safe_load ConfigBox w p) =
              Inl (PyException ''ValueError'' [''yaml file is empty''])) \<and>
         (\<forall>e. yaml_safe_load s = Inl e \<and> exc_type e \<noteq> ''BoxValueError'' \<longrightarrow>
            fst (read_yaml yaml_safe_load ConfigBox w p) = Inl e)"
  using assms by (simp add: read_yaml_def open_read_def read_yaml_except_def Let_def)

theorem read_yaml_errors_witness:
  "files (ex_yaml_world '''') ''schema.yaml'' = Some '''' \<and>
   ex_safe_load '''' = Inr None \<and>
   ex_config_box None = Inl (PyException ''BoxValueError'' [''First argument must be mapping or iterable'']) \<and>
   fst (read_yaml ex_safe_load ex_config_box (ex_yaml_world '''') ''schema.yaml'') =
     Inl (PyException ''ValueError'' [''yaml file is empty'']) \<and>
   files (ex_yaml_world ''{'') ''schema.yaml'' = Some ''{'' \<and>
   ex_safe_load ''{'' = Inl (PyException ''ParserError'' [''while parsing a flow node'']) \<and>
   fst (read_yaml ex_safe_load ex_config_box (ex_yaml_world ''{'') ''schema.yaml'') =
     Inl (PyException ''ParserError'' [''while parsing a flow node''])"
  using read_yaml_errors [where w = "ex_yaml_world ''''" and p = "''schema.yaml''" and s = "''''"
      and yaml_safe_load = ex_safe_load and ConfigBox = ex_config_box]
    read_yaml_errors [where w = "ex_yaml_world ''{''" and p = "''schema.yaml''" and s = "''{''"
      and yaml_safe_load = ex_safe_load and ConfigBox = ex_config_box]
  by (simp add: ex_yaml_world_def ex_safe_load_def ex_config_box_def)

end
